theory Spec2Isabelle
  imports Main "HOL-Library.Char_ord"
begin

section \<open>Values, errors and panics\<close>

text \<open>
  A Go \<^verbatim>\<open>interface{}\<close> value is modelled by its dynamic type: an \<^verbatim>\<open>int\<close>, a
  \<^verbatim>\<open>string\<close> (a byte sequence), or anything else (\<^verbatim>\<open>nil\<close>, a bool, a float, a
  pointer, ...). The code compares integers and never computes with them, so an
  \<^verbatim>\<open>int\<close> is a mathematical integer here; every 64-bit value is one of them.
\<close>

datatype boxed = BInt int | BString string | BOther

text \<open>A Go \<^verbatim>\<open>error\<close> is modelled by its message; \<^verbatim>\<open>nil\<close> is \<open>None\<close>.\<close>

type_synonym error = string

text \<open>
  A run-time panic ends the call without a result. The code can panic in four places:
  the unchecked type assertion \<^verbatim>\<open>email.(string)\<close>, \<^verbatim>\<open>regexp.MustCompile\<close>,
  \<^verbatim>\<open>reflect.Value.NumField\<close> on a value that is no struct, and
  \<^verbatim>\<open>reflect.Value.Interface\<close> on an unexported field. A validator registered from
  outside may panic on its own account.
\<close>

datatype panic =
    TypeAssertionPanic
  | RegexpCompilePanic string
  | NumFieldPanic
  | UnexportedFieldPanic string
  | CustomPanic string

datatype 'a outcome = Returned 'a | Panicked panic

section \<open>Formatting integers (the verb \<^verbatim>\<open>%d\<close>)\<close>

fun digits :: "nat \<Rightarrow> string" where
  "digits n =
     (if n < 10 then [''0123456789'' ! n]
      else digits (n div 10) @ [''0123456789'' ! (n mod 10)])"

definition itoa :: "int \<Rightarrow> string" where
  "itoa k = (if k < 0 then CHR ''-'' # digits (nat (- k)) else digits (nat k))"

section \<open>Options\<close>

text \<open>
  \<^verbatim>\<open>type Option struct{ min int; max int; pattern string }\<close>. An
  \<^verbatim>\<open>OptionFunc\<close> writes through a pointer to the option; here it returns the
  updated option. \<^verbatim>\<open>&Option{}\<close> is the zero value.
\<close>

record Option_go =
  omin :: int
  omax :: int
  opattern :: string

type_synonym OptionFunc = "Option_go \<Rightarrow> Option_go"

definition zero_Option :: Option_go where
  "zero_Option = \<lparr>omin = 0, omax = 0, opattern = []\<rparr>"

definition WithMin :: "int \<Rightarrow> OptionFunc" where
  "WithMin m = (\<lambda>option. option\<lparr>omin := m\<rparr>)"

definition WithMax :: "int \<Rightarrow> OptionFunc" where
  "WithMax m = (\<lambda>option. option\<lparr>omax := m\<rparr>)"

definition WithPattern :: "string \<Rightarrow> OptionFunc" where
  "WithPattern p = (\<lambda>option. option\<lparr>opattern := p\<rparr>)"

text \<open>\<^verbatim>\<open>for _,opt := range opts { opt(option) }\<close>\<close>

definition apply_opts :: "OptionFunc list \<Rightarrow> Option_go" where
  "apply_opts opts = foldl (\<lambda>option opt. opt option) zero_Option opts"

section \<open>Validators\<close>

text \<open>
  The interface \<^verbatim>\<open>Validator\<close> has the four implementations of the package; the
  registry is open, so a fifth constructor stands for any implementation registered
  from outside, given by its \<^verbatim>\<open>Validate\<close> method. The arguments of
  \<open>StringValidator\<close> and \<open>NumberValidator\<close> are the fields \<^verbatim>\<open>min\<close> and
  \<^verbatim>\<open>max\<close>, in this order.
\<close>

datatype Validator =
    DefaultValidator
  | StringValidator int int
  | NumberValidator int int
  | EmailValidator string
  | CustomValidator "boxed \<Rightarrow> (bool \<times> error option) outcome"

definition newDefaultValidator :: "OptionFunc list \<Rightarrow> Validator" where
  "newDefaultValidator opts = DefaultValidator"

definition newStringValidator :: "OptionFunc list \<Rightarrow> Validator" where
  "newStringValidator opts =
     (let option = apply_opts opts in StringValidator (omin option) (omax option))"

definition newNumberValidator :: "OptionFunc list \<Rightarrow> Validator" where
  "newNumberValidator opts =
     (let option = apply_opts opts in NumberValidator (omin option) (omax option))"

definition newEmailValidator :: "OptionFunc list \<Rightarrow> Validator" where
  "newEmailValidator opts =
     (let option = apply_opts opts in EmailValidator (opattern option))"

text \<open>
  Package \<^verbatim>\<open>regexp\<close> is a library, not code of this repository: it is a parameter
  of the model. \<open>re p\<close> is \<open>None\<close> when \<^verbatim>\<open>regexp.Compile(p)\<close> fails, and
  otherwise \<open>Some m\<close> with \<open>m s\<close> the answer of \<^verbatim>\<open>MatchString(s)\<close> on the
  compiled expression.
\<close>

type_synonym regexp_pkg = "string \<Rightarrow> (string \<Rightarrow> bool) option"

definition string_range_msg :: "int \<Rightarrow> int \<Rightarrow> int \<Rightarrow> error" where
  "string_range_msg strLen mn mx =
     ''string length '' @ itoa strLen @ '', allowed range [ '' @ itoa mn @ '','' @ itoa mx @ '' ]''"

definition number_range_msg :: "int \<Rightarrow> int \<Rightarrow> int \<Rightarrow> error" where
  "number_range_msg num mn mx =
     ''interger '' @ itoa num @ '', allowed range [ '' @ itoa mn @ '','' @ itoa mx @ '']''"

fun Validate :: "regexp_pkg \<Rightarrow> Validator \<Rightarrow> boxed \<Rightarrow> (bool \<times> error option) outcome" where
  "Validate re DefaultValidator val = Returned (True, None)"
| "Validate re (StringValidator mn mx) val =
     (case val of
        BString str \<Rightarrow>
          (let strLen = int (length str) in
           if strLen < mn \<or> strLen > mx
           then Returned (False, Some (string_range_msg strLen mn mx))
           else Returned (True, None))
      | _ \<Rightarrow> Returned (False, Some ''not of string type''))"
| "Validate re (NumberValidator mn mx) val =
     (case val of
        BInt num \<Rightarrow>
          (if num < mn \<or> num > mx
           then Returned (False, Some (number_range_msg num mn mx))
           else Returned (True, None))
      | _ \<Rightarrow> Returned (False, Some ''not of int type''))"
| "Validate re (EmailValidator p) email =
     (case re p of
        None \<Rightarrow> Panicked (RegexpCompilePanic p)
      | Some regExp \<Rightarrow>
          (case email of
             BString s \<Rightarrow>
               (if \<not> regExp s then Returned (False, Some ''not a valid email address'')
                else Returned (True, None))
           | _ \<Rightarrow> Panicked TypeAssertionPanic))"
| "Validate re (CustomValidator f) val = f val"

section \<open>Library functions used by the resolver\<close>

text \<open>
  \<^verbatim>\<open>strings.Split(s, sep)\<close> for a separator of one byte: the pieces between the
  separators, in order. The result is never empty; \<^verbatim>\<open>Split("", ",")\<close> is
  \<^verbatim>\<open>[""]\<close>.
\<close>

fun Split :: "string \<Rightarrow> char \<Rightarrow> string list" where
  "Split [] sep = [[]]"
| "Split (c # cs) sep =
     (if c = sep then [] # Split cs sep
      else (case Split cs sep of [] \<Rightarrow> [[c]] | x # xs \<Rightarrow> (c # x) # xs))"

text \<open>\<^verbatim>\<open>strings.Join(elems, sep)\<close>\<close>

fun Join :: "string list \<Rightarrow> string \<Rightarrow> string" where
  "Join [] sep = []"
| "Join [x] sep = x"
| "Join (x # y # ys) sep = x @ sep @ Join (y # ys) sep"

text \<open>
  \<^verbatim>\<open>fmt.Sscanf(str, "min=%d,max=%d", &min, &max)\<close>, after the scanner of package
  \<^verbatim>\<open>fmt\<close>. The characters of the format outside the verbs must be the next
  characters of the input. A verb \<^verbatim>\<open>%d\<close> skips spaces (a newline is an error),
  takes an optional sign and the longest run of decimal digits, which must not be
  empty, and hands the token to \<^verbatim>\<open>strconv.ParseInt(tok, 10, 64)\<close>, which
  rejects a value outside 64 bits. The scan stops at the first error; what was stored
  before stays stored, and input after the last verb is not looked at.
\<close>

fun match_literal :: "string \<Rightarrow> string \<Rightarrow> string option" where
  "match_literal [] inp = Some inp"
| "match_literal (f # fs) [] = None"
| "match_literal (f # fs) (c # cs) = (if f = c then match_literal fs cs else None)"

text \<open>
  The width in bytes of a leading space character other than the newline, 0 when there
  is none: the runes of \<^verbatim>\<open>isSpace\<close> in \<^verbatim>\<open>fmt/scan.go\<close> (U+0009, U+000B to
  U+000D, U+0020, U+0085, U+00A0, U+1680, U+2000 to U+200A, U+2028, U+2029, U+202F,
  U+205F, U+3000) in their UTF-8 encoding.
\<close>

definition space_width :: "string \<Rightarrow> nat" where
  "space_width s =
     (case s of
        [] \<Rightarrow> 0
      | c # cs \<Rightarrow>
          if c = CHR 0x09 \<or> c = CHR 0x0B \<or> c = CHR 0x0C \<or> c = CHR 0x0D \<or> c = CHR 0x20 then 1
          else if c = CHR 0xC2 \<and> (take 1 cs = [CHR 0x85] \<or> take 1 cs = [CHR 0xA0]) then 2
          else if c = CHR 0xE1 \<and> take 2 cs = [CHR 0x9A, CHR 0x80] then 3
          else if c = CHR 0xE2 \<and> take 1 cs = [CHR 0x80] \<and> length cs \<ge> 2
                  \<and> ((CHR 0x80 \<le> cs ! 1 \<and> cs ! 1 \<le> CHR 0x8A)
                       \<or> cs ! 1 = CHR 0xA8 \<or> cs ! 1 = CHR 0xA9 \<or> cs ! 1 = CHR 0xAF) then 3
          else if c = CHR 0xE2 \<and> take 2 cs = [CHR 0x81, CHR 0x9F] then 3
          else if c = CHR 0xE3 \<and> take 2 cs = [CHR 0x80, CHR 0x80] then 3
          else 0)"

text \<open>\<^verbatim>\<open>SkipSpace\<close>: \<open>None\<close> is the error "unexpected newline".\<close>

fun SkipSpace :: "string \<Rightarrow> string option" where
  "SkipSpace [] = Some []"
| "SkipSpace (c # cs) =
     (if c = CHR 0x0A then None
      else if space_width (c # cs) = 0 then Some (c # cs)
      else SkipSpace (drop (space_width (c # cs)) (c # cs)))"

definition is_digit :: "char \<Rightarrow> bool" where
  "is_digit c = (CHR ''0'' \<le> c \<and> c \<le> CHR ''9'')"

definition digit_val :: "char \<Rightarrow> int" where
  "digit_val c = int (of_char c) - 48"

definition decimal :: "string \<Rightarrow> int" where
  "decimal tok = foldl (\<lambda>n c. 10 * n + digit_val c) 0 tok"

text \<open>
  \<^verbatim>\<open>scanInt\<close> for the verb \<^verbatim>\<open>%d\<close> and a 64-bit \<^verbatim>\<open>int\<close>: the number
  scanned and the rest of the input, or \<open>None\<close> for an error.
\<close>

definition scanInt :: "string \<Rightarrow> (int \<times> string) option" where
  "scanInt inp =
     (case SkipSpace inp of
        None \<Rightarrow> None
      | Some s \<Rightarrow>
          (let neg = (take 1 s = ''-'');
               s1 = (if take 1 s = ''+'' \<or> take 1 s = ''-'' then drop 1 s else s);
               tok = takeWhile is_digit s1;
               rest = dropWhile is_digit s1;
               n = (if neg then - decimal tok else decimal tok)
           in if tok = [] then None
              else if n < - (2 ^ 63) \<or> 2 ^ 63 \<le> n then None
              else Some (n, rest)))"

text \<open>
  The call itself: the number of values stored, and the two variables after the call,
  given their values before it.
\<close>

definition Sscanf_min_max :: "string \<Rightarrow> int \<times> int \<Rightarrow> nat \<times> int \<times> int" where
  "Sscanf_min_max str vars =
     (case match_literal ''min='' str of
        None \<Rightarrow> (0, fst vars, snd vars)
      | Some s1 \<Rightarrow>
          (case scanInt s1 of
             None \<Rightarrow> (0, fst vars, snd vars)
           | Some (a, s2) \<Rightarrow>
               (case match_literal '',max='' s2 of
                  None \<Rightarrow> (1, a, snd vars)
                | Some s3 \<Rightarrow>
                    (case scanInt s3 of
                       None \<Rightarrow> (1, a, snd vars)
                     | Some (b, s4) \<Rightarrow> (2, a, b)))))"

section \<open>The registry and the resolver\<close>

definition DefaultMaxValue :: int where
  "DefaultMaxValue = 127"

definition DefaultMinValue :: int where
  "DefaultMinValue = - 128"

text \<open>
  \<^verbatim>\<open>var pattern = `\A[\w+\-.]+@[a-z\d\-]+(\.[a-z]+)*\.[a-z]+\z`\<close>; \<open>CHR 0x5C\<close>
  is the backslash.
\<close>

definition pattern :: string where
  "pattern =
     CHR 0x5C # ''A['' @ CHR 0x5C # ''w+'' @ CHR 0x5C # ''-.]+@[a-z'' @ CHR 0x5C # ''d''
     @ CHR 0x5C # ''-]+('' @ CHR 0x5C # ''.[a-z]+)*'' @ CHR 0x5C # ''.[a-z]+'' @ CHR 0x5C # ''z''"

text \<open>
  \<^verbatim>\<open>ValidatorFactory\<close> is a package-level map that any code of the package may
  extend, so the resolver and the walker take the registry as an argument.
  \<open>ValidatorFactory\<close> is its content after \<^verbatim>\<open>init()\<close>. A constructor
  is a function from the options to a validator, as its Go type says; the four of the
  package return on the options that the resolver passes.
\<close>

type_synonym factory = "string \<rightharpoonup> (OptionFunc list \<Rightarrow> Validator)"

definition ValidatorFactory :: factory where
  "ValidatorFactory =
     [''default'' \<mapsto> newDefaultValidator,
      ''int'' \<mapsto> newNumberValidator,
      ''string'' \<mapsto> newStringValidator,
      ''email'' \<mapsto> newEmailValidator]"

text \<open>
  \<^verbatim>\<open>GetValidatorFromTag\<close>: \<open>Inl\<close> is the error return, \<open>Inr\<close> the validator.
  \<^verbatim>\<open>var min, max int\<close> are 0 before the scan.
\<close>

definition GetValidatorFromTag :: "factory \<Rightarrow> string \<Rightarrow> error + Validator" where
  "GetValidatorFromTag fac tag =
     (let args = Split tag CHR '','' in
      if length args = 0 then Inl ''validator type not present''
      else
        (case fac (hd args) of
           None \<Rightarrow> Inl (''validator for '' @ hd args @ '' not present'')
         | Some validator \<Rightarrow>
             (let (mn, mx) =
                    (if length args = 1 then (DefaultMinValue, DefaultMaxValue)
                     else snd (Sscanf_min_max (Join (tl args) '','') (0, 0)))
              in Inr (validator [WithMin mn, WithMax mx, WithPattern pattern]))))"

section \<open>The record walker\<close>

text \<open>
  A struct value as reflection shows it: its fields in declaration order, each with its
  name, whether it is exported, the value of \<^verbatim>\<open>Tag.Get("validate")\<close> (empty when
  the field has no such annotation) and its value.
\<close>

record field =
  fname :: string
  exported :: bool
  ftag :: string
  fvalue :: boxed

text \<open>The argument \<^verbatim>\<open>user interface{}\<close>: a struct, or a value of any other kind.\<close>

datatype user = Struct "field list" | NonStruct

text \<open>\<^verbatim>\<open>val.Field(i).Interface()\<close> panics on an unexported field.\<close>

definition Interface :: "field \<Rightarrow> boxed outcome" where
  "Interface f = (if exported f then Returned (fvalue f) else Panicked (UnexportedFieldPanic (fname f)))"

text \<open>The local variables of \<^verbatim>\<open>ValidateUser\<close>.\<close>

record locals =
  val :: "field list"
  i :: nat
  errs :: "error list"

text \<open>One run of the loop body, without the increment of \<^verbatim>\<open>i\<close>.\<close>

definition loop_body :: "regexp_pkg \<Rightarrow> factory \<Rightarrow> locals \<Rightarrow> locals outcome" where
  "loop_body re fac st =
     (let tag = ftag (val st ! i st) in
      if tag = [] \<or> tag = ''_'' then Returned st
      else
        (case GetValidatorFromTag fac tag of
           Inl err \<Rightarrow> Returned (st\<lparr>errs := errs st @ [err]\<rparr>)
         | Inr validator \<Rightarrow>
             (case Interface (val st ! i st) of
                Panicked p \<Rightarrow> Panicked p
              | Returned v \<Rightarrow>
                  (case Validate re validator v of
                     Panicked p \<Rightarrow> Panicked p
                   | Returned (valid, err) \<Rightarrow>
                       (if err \<noteq> None \<and> \<not> valid
                        then Returned (st\<lparr>errs := errs st @ [the err]\<rparr>)
                        else Returned st)))))"

text \<open>
  \<^verbatim>\<open>for i := 0; i < val.NumField(); i++ { ... }\<close>: the loop ends because the
  body changes neither \<^verbatim>\<open>val\<close> nor \<^verbatim>\<open>i\<close>.
\<close>

function loop :: "regexp_pkg \<Rightarrow> factory \<Rightarrow> locals \<Rightarrow> locals outcome" where
  "loop re fac st =
     (if i st < length (val st) then
        (case loop_body re fac st of
           Panicked p \<Rightarrow> Panicked p
         | Returned st' \<Rightarrow> loop re fac (st'\<lparr>i := i st' + 1\<rparr>))
      else Returned st)"
  by pat_completeness auto
termination
  by (relation "measure (\<lambda>(re, fac, st). length (val st) - i st)")
     (auto simp: loop_body_def Let_def split: if_splits sum.splits outcome.splits prod.splits)

declare loop.simps [simp del]

text \<open>
  \<^verbatim>\<open>ValidateUser\<close>: \<^verbatim>\<open>reflect.ValueOf(user).NumField()\<close> panics unless the value
  is a struct; \<^verbatim>\<open>errs\<close> starts empty and is what the function returns.
\<close>

definition ValidateUser :: "regexp_pkg \<Rightarrow> factory \<Rightarrow> user \<Rightarrow> error list outcome" where
  "ValidateUser re fac u =
     (case u of
        NonStruct \<Rightarrow> Panicked NumFieldPanic
      | Struct fs \<Rightarrow>
          (case loop re fac \<lparr>val = fs, i = 0, errs = []\<rparr> of
             Panicked p \<Rightarrow> Panicked p
           | Returned st \<Rightarrow> Returned (errs st)))"

text \<open>
  Two passes one after the other: the diagnostics of the first followed by those of the
  second, unless one of them panics; the first panic is the result.
\<close>

definition append_errs :: "error list outcome \<Rightarrow> error list outcome \<Rightarrow> error list outcome" where
  "append_errs a b =
     (case a of
        Panicked p \<Rightarrow> Panicked p
      | Returned e1 \<Rightarrow> (case b of Panicked p \<Rightarrow> Panicked p | Returned e2 \<Rightarrow> Returned (e1 @ e2)))"

section \<open>A model of package \<^verbatim>\<open>regexp\<close>\<close>

text \<open>
  The statements about all patterns hold for every \<open>regexp_pkg\<close>. The statements
  about the pattern of the package and about one pattern that does not compile need
  the library itself; \<open>go_regexp\<close> models it on a fragment of the syntax of
  \<^verbatim>\<open>regexp/syntax\<close> that holds both: ASCII literals, the escapes \<^verbatim>\<open>\A\<close>,
  \<^verbatim>\<open>\z\<close>, \<^verbatim>\<open>\d\<close>, \<^verbatim>\<open>\w\<close>, \<^verbatim>\<open>\s\<close> and an escaped ASCII character that is
  neither letter nor digit, \<^verbatim>\<open>^\<close> and \<^verbatim>\<open>$\<close> (begin and end of the text, the
  default flags), classes \<^verbatim>\<open>[...]\<close> of characters, ranges and these escapes, groups,
  \<^verbatim>\<open>|\<close>, and \<^verbatim>\<open>*\<close>, \<^verbatim>\<open>+\<close>, \<^verbatim>\<open>?\<close>. Inside the fragment \<open>go_regexp p\<close>
  is \<open>None\<close> where the parser of the library reports an error (a missing or an
  unexpected parenthesis, a repetition with nothing to repeat, a missing bracket, a
  range that runs backwards, a pattern that ends in a backslash). What is outside the
  fragment (a byte above 0x7F, \<^verbatim>\<open>.\<close>, a negated class, \<^verbatim>\<open>{\<close>, \<^verbatim>\<open>(?\<close>, a
  repetition right after a repetition, the other escapes, \<^verbatim>\<open>[:\<close>) is \<open>None\<close> as
  well, whatever the library does with it. All classes of the fragment are sets of
  ASCII characters, so matching byte by byte agrees with matching rune by rune.
\<close>

datatype regex =
    EmptyMatch
  | CharClass "(char \<times> char) list"
  | BeginText
  | EndText
  | Concat regex regex
  | Alternate regex regex
  | Star regex
  | Plus regex
  | Quest regex

text \<open>
  A position in the text: whether it is the beginning of the text, and the text from
  there on. \<open>ends r n ps\<close> are the positions where a match of \<open>r\<close> can end that
  begins at one of \<open>ps\<close>; \<open>n\<close> bounds the rounds of a repetition and is more than
  the number of positions of the text.
\<close>

type_synonym position = "bool \<times> string"

definition in_class :: "(char \<times> char) list \<Rightarrow> char \<Rightarrow> bool" where
  "in_class rs c = list_ex (\<lambda>r. fst r \<le> c \<and> c \<le> snd r) rs"

fun step_class :: "(char \<times> char) list \<Rightarrow> position list \<Rightarrow> position list" where
  "step_class rs [] = []"
| "step_class rs ((b, []) # ps) = step_class rs ps"
| "step_class rs ((b, c # cs) # ps) =
     (if in_class rs c then (False, cs) # step_class rs ps else step_class rs ps)"

fun closure :: "nat \<Rightarrow> (position list \<Rightarrow> position list) \<Rightarrow> position list \<Rightarrow> position list \<Rightarrow> position list" where
  "closure 0 f seen frontier = seen"
| "closure (Suc k) f seen frontier =
     (let new = filter (\<lambda>p. p \<notin> set seen) (remdups (f frontier)) in
      if new = [] then seen else closure k f (seen @ new) new)"

primrec ends :: "regex \<Rightarrow> nat \<Rightarrow> position list \<Rightarrow> position list" where
  "ends EmptyMatch n ps = ps"
| "ends (CharClass rs) n ps = step_class rs ps"
| "ends BeginText n ps = filter fst ps"
| "ends EndText n ps = filter (\<lambda>p. snd p = []) ps"
| "ends (Concat r1 r2) n ps = ends r2 n (ends r1 n ps)"
| "ends (Alternate r1 r2) n ps = remdups (ends r1 n ps @ ends r2 n ps)"
| "ends (Star r) n ps = closure n (ends r n) (remdups ps) (remdups ps)"
| "ends (Plus r) n ps = closure n (ends r n) (remdups (ends r n ps)) (remdups (ends r n ps))"
| "ends (Quest r) n ps = remdups (ps @ ends r n ps)"

text \<open>
  \<^verbatim>\<open>MatchString\<close> reports whether the text contains any match: a match may begin
  at every position.
\<close>

fun later :: "string \<Rightarrow> position list" where
  "later [] = []"
| "later (c # cs) = (False, cs) # later cs"

definition MatchString :: "regex \<Rightarrow> string \<Rightarrow> bool" where
  "MatchString r s = (ends r (Suc (length s)) ((True, s) # later s) \<noteq> [])"

text \<open>The parser: the pattern is cut into tokens, a class being one token.\<close>

datatype token = TAtom regex | TLParen | TRParen | TBar | TStar | TPlus | TQuest

definition is_ascii :: "char \<Rightarrow> bool" where
  "is_ascii c = (c < CHR 0x80)"

definition is_alnum :: "char \<Rightarrow> bool" where
  "is_alnum c = ((CHR ''0'' \<le> c \<and> c \<le> CHR ''9'') \<or> (CHR ''A'' \<le> c \<and> c \<le> CHR ''Z'')
                 \<or> (CHR ''a'' \<le> c \<and> c \<le> CHR ''z''))"

definition is_punct :: "char \<Rightarrow> bool" where
  "is_punct c = (is_ascii c \<and> \<not> is_alnum c)"

definition perl_class :: "char \<Rightarrow> (char \<times> char) list option" where
  "perl_class e =
     (if e = CHR ''d'' then Some [(CHR ''0'', CHR ''9'')]
      else if e = CHR ''w'' then
        Some [(CHR ''0'', CHR ''9''), (CHR ''A'', CHR ''Z''), (CHR ''_'', CHR ''_''), (CHR ''a'', CHR ''z'')]
      else if e = CHR ''s'' then
        Some [(CHR 0x09, CHR 0x0A), (CHR 0x0C, CHR 0x0D), (CHR 0x20, CHR 0x20)]
      else None)"

definition escape_atom :: "char \<Rightarrow> regex option" where
  "escape_atom e =
     (if e = CHR ''A'' then Some BeginText
      else if e = CHR ''z'' then Some EndText
      else (case perl_class e of
              Some rs \<Rightarrow> Some (CharClass rs)
            | None \<Rightarrow> if is_punct e then Some (CharClass [(e, e)]) else None))"

text \<open>
  After the first character \<open>lo\<close> of a class item: the range of the item, and how
  many characters of \<open>t\<close> belong to it. \<^verbatim>\<open>[a-]\<close> is \<^verbatim>\<open>a\<close> or \<^verbatim>\<open>-\<close>.
\<close>

definition class_hi :: "char \<Rightarrow> string \<Rightarrow> ((char \<times> char) \<times> nat) option" where
  "class_hi lo t =
     (if take 1 t = ''-'' \<and> length t \<ge> 2 \<and> t ! 1 \<noteq> CHR '']'' then
        (if t ! 1 = CHR 0x5C then
           (if length t \<ge> 3 \<and> is_punct (t ! 2) \<and> lo \<le> t ! 2 then Some ((lo, t ! 2), 3) else None)
         else if is_ascii (t ! 1) \<and> lo \<le> t ! 1 then Some ((lo, t ! 1), 2)
         else None)
      else Some ((lo, lo), 0))"

datatype lex_mode = Normal | InClass bool "(char \<times> char) list"

fun lex :: "lex_mode \<Rightarrow> string \<Rightarrow> token list option" where
  "lex Normal [] = Some []"
| "lex (InClass first rs) [] = None"
| "lex Normal (c # cs) =
     (if \<not> is_ascii c \<or> c = CHR ''.'' \<or> c = CHR ''{'' then None
      else if c = CHR 0x5C then
        (case cs of
           [] \<Rightarrow> None
         | e # cs' \<Rightarrow>
             (case escape_atom e of
                None \<Rightarrow> None
              | Some a \<Rightarrow> map_option ((#) (TAtom a)) (lex Normal cs')))
      else if c = CHR ''['' then
        (if take 1 cs = ''^'' then None else lex (InClass True []) cs)
      else if c = CHR ''('' then
        (if take 1 cs = ''?'' then None else map_option ((#) TLParen) (lex Normal cs))
      else if c = CHR '')'' then map_option ((#) TRParen) (lex Normal cs)
      else if c = CHR ''|'' then map_option ((#) TBar) (lex Normal cs)
      else if c = CHR ''*'' \<or> c = CHR ''+'' \<or> c = CHR ''?'' then
        (if take 1 cs = ''*'' \<or> take 1 cs = ''+'' \<or> take 1 cs = ''?'' then None
         else map_option ((#) (if c = CHR ''*'' then TStar else if c = CHR ''+'' then TPlus else TQuest))
                (lex Normal cs))
      else if c = CHR ''^'' then map_option ((#) (TAtom BeginText)) (lex Normal cs)
      else if c = CHR ''$'' then map_option ((#) (TAtom EndText)) (lex Normal cs)
      else map_option ((#) (TAtom (CharClass [(c, c)]))) (lex Normal cs))"
| "lex (InClass first rs) (c # cs) =
     (if c = CHR '']'' \<and> \<not> first then map_option ((#) (TAtom (CharClass rs))) (lex Normal cs)
      else if \<not> is_ascii c \<or> (c = CHR ''['' \<and> take 1 cs = '':'') then None
      else if c = CHR 0x5C then
        (case cs of
           [] \<Rightarrow> None
         | e # cs' \<Rightarrow>
             (case perl_class e of
                Some prs \<Rightarrow> lex (InClass False (rs @ prs)) cs'
              | None \<Rightarrow>
                  if is_punct e then
                    (case class_hi e cs' of
                       None \<Rightarrow> None
                     | Some (r, k) \<Rightarrow> lex (InClass False (rs @ [r])) (drop k cs'))
                  else None))
      else
        (case class_hi c cs of
           None \<Rightarrow> None
         | Some (r, k) \<Rightarrow> lex (InClass False (rs @ [r])) (drop k cs)))"

text \<open>
  The tokens are folded over a stack, as the parser of the library does: a closing
  parenthesis and the end of the pattern turn the items above the last open
  parenthesis into the alternation of their concatenations.
\<close>

datatype item = IRe regex | ILParen | IBar

definition cat :: "regex \<Rightarrow> regex option \<Rightarrow> regex" where
  "cat r acc = (case acc of None \<Rightarrow> r | Some a \<Rightarrow> Concat r a)"

definition alt :: "regex option \<Rightarrow> regex option \<Rightarrow> regex" where
  "alt cur alts =
     (let l = (case cur of None \<Rightarrow> EmptyMatch | Some c \<Rightarrow> c)
      in case alts of None \<Rightarrow> l | Some a \<Rightarrow> Alternate l a)"

fun reduce :: "item list \<Rightarrow> regex option \<Rightarrow> regex option \<Rightarrow> regex \<times> item list" where
  "reduce (IRe r # stk) cur alts = reduce stk (Some (cat r cur)) alts"
| "reduce (IBar # stk) cur alts = reduce stk None (Some (alt cur alts))"
| "reduce stk cur alts = (alt cur alts, stk)"

fun parse :: "token list \<Rightarrow> item list \<Rightarrow> regex option" where
  "parse [] stk = (case reduce stk None None of (r, []) \<Rightarrow> Some r | _ \<Rightarrow> None)"
| "parse (TAtom a # ts) stk = parse ts (IRe a # stk)"
| "parse (TLParen # ts) stk = parse ts (ILParen # stk)"
| "parse (TBar # ts) stk = parse ts (IBar # stk)"
| "parse (TRParen # ts) stk =
     (case reduce stk None None of
        (r, ILParen # stk') \<Rightarrow> parse ts (IRe r # stk')
      | _ \<Rightarrow> None)"
| "parse (TStar # ts) stk = (case stk of IRe r # stk' \<Rightarrow> parse ts (IRe (Star r) # stk') | _ \<Rightarrow> None)"
| "parse (TPlus # ts) stk = (case stk of IRe r # stk' \<Rightarrow> parse ts (IRe (Plus r) # stk') | _ \<Rightarrow> None)"
| "parse (TQuest # ts) stk = (case stk of IRe r # stk' \<Rightarrow> parse ts (IRe (Quest r) # stk') | _ \<Rightarrow> None)"

definition go_regexp :: regexp_pkg where
  "go_regexp p =
     (case lex Normal p of
        None \<Rightarrow> None
      | Some ts \<Rightarrow> (case parse ts [] of None \<Rightarrow> None | Some r \<Rightarrow> Some (MatchString r)))"

section \<open>The record of the program\<close>

text \<open>
  \<^verbatim>\<open>type User struct\<close> with its four annotated fields, all exported.
\<close>

definition User :: "string \<Rightarrow> string \<Rightarrow> int \<Rightarrow> string \<Rightarrow> user" where
  "User name email age contactNo = Struct
     [\<lparr>fname = ''Name'', exported = True, ftag = ''string'', fvalue = BString name\<rparr>,
      \<lparr>fname = ''Email'', exported = True, ftag = ''email'', fvalue = BString email\<rparr>,
      \<lparr>fname = ''Age'', exported = True, ftag = ''int,min=18,max=30'', fvalue = BInt age\<rparr>,
      \<lparr>fname = ''ContactNo'', exported = True, ftag = ''string,min=10,max=13'',
        fvalue = BString contactNo\<rparr>]"


section \<open>Lemmas about the library functions and the resolver\<close>

lemma Split_no_sep: "sep \<notin> set s \<Longrightarrow> Split s sep = [s]"
  by (induction s) auto

lemma Split_ne: "Split s sep \<noteq> []"
  by (induction s) (auto split: list.splits)

lemma Split_append: "sep \<notin> set a \<Longrightarrow> Split (a @ sep # b) sep = a # Split b sep"
  by (induction a) (auto)

lemma Join_Cons_Cons: "Join ((c # x) # xs) sep = c # Join (x # xs) sep"
  by (cases xs) auto

lemma Join_Nil_Cons: "xs \<noteq> [] \<Longrightarrow> Join ([] # xs) sep = sep @ Join xs sep"
  by (cases xs) auto

lemma Join_Split: "Join (Split s sep) [sep] = s"
proof (induction s)
  case Nil
  then show ?case by simp
next
  case (Cons c cs)
  show ?case
  proof (cases "c = sep")
    case True
    then show ?thesis using Cons by (simp add: Join_Nil_Cons Split_ne)
  next
    case False
    then show ?thesis using Cons
      by (cases "Split cs sep") (simp_all add: Split_ne Join_Cons_Cons)
  qed
qed

lemma resolve_rest:
  assumes "CHR '','' \<notin> set name" and "fac name = Some validator"
  shows "GetValidatorFromTag fac (name @ CHR '','' # rest) =
           Inr (validator [WithMin (fst (snd (Sscanf_min_max rest (0, 0)))),
                           WithMax (snd (snd (Sscanf_min_max rest (0, 0)))),
                           WithPattern pattern])"
  using assms
  by (simp add: GetValidatorFromTag_def Split_append Split_ne Join_Nil_Cons Join_Split[of rest "CHR '',''", simplified] Let_def split: prod.splits)

lemma resolve_single:
  assumes "CHR '','' \<notin> set tag" and "fac tag = Some validator"
  shows "GetValidatorFromTag fac tag =
           Inr (validator [WithMin (- 128), WithMax 127, WithPattern pattern])"
  using assms
  by (simp add: GetValidatorFromTag_def Split_no_sep DefaultMinValue_def DefaultMaxValue_def)

lemma Sscanf_partial:
  "fst (Sscanf_min_max str (0, 0)) < 2 \<Longrightarrow> snd (snd (Sscanf_min_max str (0, 0))) = 0"
  "fst (Sscanf_min_max str (0, 0)) = 0 \<Longrightarrow> fst (snd (Sscanf_min_max str (0, 0))) = 0"
  by (auto simp: Sscanf_min_max_def split: option.splits prod.splits)

lemmas resolver_defs =
  GetValidatorFromTag_def ValidatorFactory_def Sscanf_min_max_def scanInt_def space_width_def
  is_digit_def decimal_def digit_val_def newNumberValidator_def newStringValidator_def
  newEmailValidator_def newDefaultValidator_def apply_opts_def zero_Option_def WithMin_def
  WithMax_def WithPattern_def DefaultMinValue_def DefaultMaxValue_def

lemma unknown_rule_error:
  "fac (hd (Split tag CHR '','')) = None \<Longrightarrow>
   GetValidatorFromTag fac tag = Inl (''validator for '' @ hd (Split tag CHR '','') @ '' not present'')"
  by (simp add: GetValidatorFromTag_def Split_ne)

section \<open>Lemmas about the walker\<close>

text \<open>
  The loop over the fields of a struct is the loop over its first field followed by the
  loop over the others, and what one field contributes is what the body does with it.
\<close>

lemmas body_splits = if_splits sum.splits outcome.splits prod.splits

lemma loop_body_frame:
  "loop_body re fac st = Returned st' \<Longrightarrow> val st' = val st \<and> i st' = i st"
  by (auto simp: loop_body_def Let_def split: body_splits)

lemma loop_frame: "loop re fac st = Returned st' \<Longrightarrow> val st' = val st"
proof (induction re fac st rule: loop.induct)
  case (1 re fac st)
  show ?case
  proof (cases "i st < length (val st)")
    case False
    with "1.prems" show ?thesis by (simp add: loop.simps [of re fac st])
  next
    case True
    with "1.prems" obtain s where b: "loop_body re fac st = Returned s"
      and l: "loop re fac (s\<lparr>i := i s + 1\<rparr>) = Returned st'"
      by (auto simp: loop.simps [of re fac st] split: outcome.splits)
    from "1.IH" [OF True b l] loop_body_frame [OF b] show ?thesis by simp
  qed
qed

lemma loop_body_errs:
  "loop_body re fac (st\<lparr>errs := es @ errs st\<rparr>) =
     map_outcome (\<lambda>s. s\<lparr>errs := es @ errs s\<rparr>) (loop_body re fac st)"
  by (auto simp: loop_body_def Let_def split: body_splits)

lemma loop_body_shift:
  "loop_body re fac (st\<lparr>val := f # val st, i := Suc (i st)\<rparr>) =
     map_outcome (\<lambda>s. s\<lparr>val := f # val s, i := Suc (i s)\<rparr>) (loop_body re fac st)"
  by (auto simp: loop_body_def Let_def split: body_splits)


lemma loop_errs:
  "loop re fac (st\<lparr>errs := es @ errs st\<rparr>) =
     map_outcome (\<lambda>s. s\<lparr>errs := es @ errs s\<rparr>) (loop re fac st)"
proof (induction re fac st rule: loop.induct)
  case (1 re fac st)
  let ?st = "st\<lparr>errs := es @ errs st\<rparr>"
  show ?case
  proof (cases "i st < length (val st)")
    case False
    then show ?thesis
      by (simp add: loop.simps [of re fac st] loop.simps [of re fac ?st])
  next
    case True
    show ?thesis
    proof (cases "loop_body re fac st")
      case (Panicked p)
      with True show ?thesis
        by (simp add: loop.simps [of re fac st] loop.simps [of re fac ?st] loop_body_errs)
    next
      case (Returned s)
      obtain v k e where s: "s = \<lparr>val = v, i = k, errs = e\<rparr>" by (cases s)
      have "loop re fac \<lparr>val = v, i = Suc k, errs = es @ e\<rparr> =
              map_outcome (\<lambda>s. s\<lparr>errs := es @ errs s\<rparr>) (loop re fac \<lparr>val = v, i = Suc k, errs = e\<rparr>)"
        using "1.IH" [OF True Returned] by (simp add: s)
      with True Returned show ?thesis
        by (simp add: loop.simps [of re fac st] loop.simps [of re fac ?st] loop_body_errs s)
    qed
  qed
qed

lemma loop_shift:
  "loop re fac (st\<lparr>val := f # val st, i := Suc (i st)\<rparr>) =
     map_outcome (\<lambda>s. s\<lparr>val := f # val s, i := Suc (i s)\<rparr>) (loop re fac st)"
proof (induction re fac st rule: loop.induct)
  case (1 re fac st)
  let ?st = "st\<lparr>val := f # val st, i := Suc (i st)\<rparr>"
  show ?case
  proof (cases "i st < length (val st)")
    case False
    then show ?thesis
      by (simp add: loop.simps [of re fac st] loop.simps [of re fac ?st])
  next
    case True
    show ?thesis
    proof (cases "loop_body re fac st")
      case (Panicked p)
      with True show ?thesis
        by (simp add: loop.simps [of re fac st] loop.simps [of re fac ?st] loop_body_shift)
    next
      case (Returned s)
      obtain v k e where s: "s = \<lparr>val = v, i = k, errs = e\<rparr>" by (cases s)
      have "loop re fac \<lparr>val = f # v, i = Suc (Suc k), errs = e\<rparr> =
              map_outcome (\<lambda>s. s\<lparr>val := f # val s, i := Suc (i s)\<rparr>) (loop re fac \<lparr>val = v, i = Suc k, errs = e\<rparr>)"
        using "1.IH" [OF True Returned] by (simp add: s)
      with True Returned show ?thesis
        by (simp add: loop.simps [of re fac st] loop.simps [of re fac ?st] loop_body_shift s)
    qed
  qed
qed

lemma loop_body_head:
  "loop_body re fac \<lparr>val = f # fs, i = 0, errs = es\<rparr> =
     map_outcome (\<lambda>s. s\<lparr>val := f # fs\<rparr>) (loop_body re fac \<lparr>val = [f], i = 0, errs = es\<rparr>)"
  by (auto simp: loop_body_def Let_def split: body_splits)

lemma loop_done: "loop re fac \<lparr>val = fs, i = length fs, errs = es\<rparr> = Returned \<lparr>val = fs, i = length fs, errs = es\<rparr>"
  by (simp add: loop.simps [of re fac "\<lparr>val = fs, i = length fs, errs = es\<rparr>"])

lemma ValidateUser_Nil: "ValidateUser re fac (Struct []) = Returned []"
  using loop_done [of re fac "[]" "[]"] by (simp add: ValidateUser_def)

lemma ValidateUser_single:
  "ValidateUser re fac (Struct [f]) =
     map_outcome errs (loop_body re fac \<lparr>val = [f], i = 0, errs = []\<rparr>)"
proof (cases "loop_body re fac \<lparr>val = [f], i = 0, errs = []\<rparr>")
  case (Panicked p)
  then show ?thesis
    by (simp add: ValidateUser_def loop.simps [of re fac "\<lparr>val = [f], i = 0, errs = []\<rparr>"])
next
  case (Returned s)
  from loop_body_frame [OF Returned] obtain e where s: "s = \<lparr>val = [f], i = 0, errs = e\<rparr>"
    by (cases s) simp
  with Returned loop_done [of re fac "[f]" e] show ?thesis
    by (simp add: ValidateUser_def loop.simps [of re fac "\<lparr>val = [f], i = 0, errs = []\<rparr>"])
qed

lemma ValidateUser_Cons:
  "ValidateUser re fac (Struct (f # fs)) =
     append_errs (ValidateUser re fac (Struct [f])) (ValidateUser re fac (Struct fs))"
proof -
  let ?st = "\<lparr>val = f # fs, i = 0, errs = []\<rparr>"
  have whole: "ValidateUser re fac (Struct (f # fs)) =
      (case loop re fac ?st of Panicked p \<Rightarrow> Panicked p | Returned st \<Rightarrow> Returned (errs st))"
    by (simp add: ValidateUser_def)
  have rest: "ValidateUser re fac (Struct fs) =
      (case loop re fac \<lparr>val = fs, i = 0, errs = []\<rparr> of
         Panicked p \<Rightarrow> Panicked p | Returned st \<Rightarrow> Returned (errs st))"
    by (simp add: ValidateUser_def)
  show ?thesis
  proof (cases "loop_body re fac \<lparr>val = [f], i = 0, errs = []\<rparr>")
    case (Panicked p)
    then have "ValidateUser re fac (Struct [f]) = Panicked p"
      by (simp add: ValidateUser_single)
    moreover from Panicked have "loop re fac ?st = Panicked p"
      by (simp add: loop_body_head [of re fac f fs "[]"] loop.simps [of re fac ?st])
    ultimately show ?thesis
      by (simp add: whole append_errs_def)
  next
    case (Returned s)
    from loop_body_frame [OF Returned] obtain e where s: "s = \<lparr>val = [f], i = 0, errs = e\<rparr>"
      by (cases s) simp
    from Returned s have single: "ValidateUser re fac (Struct [f]) = Returned e"
      by (simp add: ValidateUser_single)
    have "loop re fac ?st = loop re fac \<lparr>val = f # fs, i = Suc 0, errs = e\<rparr>"
      using Returned s
      by (simp add: loop_body_head [of re fac f fs "[]"] loop.simps [of re fac ?st])
    also have "\<dots> = map_outcome (\<lambda>s. s\<lparr>val := f # val s, i := Suc (i s)\<rparr>)
            (loop re fac \<lparr>val = fs, i = 0, errs = e\<rparr>)"
      using loop_shift [where st = "\<lparr>val = fs, i = 0, errs = e\<rparr>" and f = f] by simp
    also have "loop re fac \<lparr>val = fs, i = 0, errs = e\<rparr> =
            map_outcome (\<lambda>s. s\<lparr>errs := e @ errs s\<rparr>) (loop re fac \<lparr>val = fs, i = 0, errs = []\<rparr>)"
      using loop_errs [where st = "\<lparr>val = fs, i = 0, errs = []\<rparr>" and es = e] by simp
    finally show ?thesis
      by (cases "loop re fac \<lparr>val = fs, i = 0, errs = []\<rparr>")
         (simp_all add: whole rest single append_errs_def)
  qed
qed

lemma append_errs_assoc: "append_errs (append_errs a b) c = append_errs a (append_errs b c)"
  by (simp add: append_errs_def split: outcome.splits)

lemma append_errs_Nil: "append_errs (Returned []) b = b" "append_errs a (Returned []) = a"
  by (simp_all add: append_errs_def split: outcome.splits)

lemma ValidateUser_append:
  "ValidateUser re fac (Struct (xs @ ys)) =
     append_errs (ValidateUser re fac (Struct xs)) (ValidateUser re fac (Struct ys))"
proof (induction xs)
  case Nil
  show ?case by (simp add: ValidateUser_Nil append_errs_Nil)
next
  case (Cons x xs)
  have "ValidateUser re fac (Struct ((x # xs) @ ys)) =
          append_errs (ValidateUser re fac (Struct [x])) (ValidateUser re fac (Struct (xs @ ys)))"
    using ValidateUser_Cons [of re fac x "xs @ ys"] by simp
  also have "\<dots> = append_errs (ValidateUser re fac (Struct [x]))
                      (append_errs (ValidateUser re fac (Struct xs)) (ValidateUser re fac (Struct ys)))"
    by (simp only: Cons.IH)
  also have "\<dots> = append_errs (ValidateUser re fac (Struct (x # xs))) (ValidateUser re fac (Struct ys))"
    by (simp only: ValidateUser_Cons [of re fac x xs] append_errs_assoc)
  finally show ?case .
qed

lemma field_diagnostics:
  "ValidateUser re fac (Struct [f]) =
     (if ftag f = [] \<or> ftag f = ''_'' then Returned []
      else
        (case GetValidatorFromTag fac (ftag f) of
           Inl err \<Rightarrow> Returned [err]
         | Inr validator \<Rightarrow>
             (case Interface f of
                Panicked p \<Rightarrow> Panicked p
              | Returned v \<Rightarrow>
                  (case Validate re validator v of
                     Panicked p \<Rightarrow> Panicked p
                   | Returned (valid, err) \<Rightarrow>
                       (if err \<noteq> None \<and> \<not> valid then Returned [the err] else Returned [])))))"
  by (simp add: ValidateUser_single loop_body_def Let_def split: outcome.splits sum.splits prod.splits)

lemma ValidateUser_mid:
  "ValidateUser re fac (Struct (pre @ f # post)) =
     append_errs (ValidateUser re fac (Struct pre))
       (append_errs (ValidateUser re fac (Struct [f])) (ValidateUser re fac (Struct post)))"
  using ValidateUser_append [of re fac pre "f # post"] ValidateUser_Cons [of re fac f post]
  by simp

lemma loop_body_skip:
  "ftag (val st ! i st) = [] \<or> ftag (val st ! i st) = ''_'' \<Longrightarrow> loop_body re fac st = Returned st"
  by (auto simp: loop_body_def)

lemma ValidateUser_order:
  "(ValidateUser re fac (Struct fs) = Returned es) =
     ((\<forall>g \<in> set fs. \<exists>e. ValidateUser re fac (Struct [g]) = Returned e)
      \<and> es = concat (map (\<lambda>g. case ValidateUser re fac (Struct [g]) of
                                 Returned e \<Rightarrow> e | Panicked p \<Rightarrow> []) fs))"
proof (induction fs arbitrary: es)
  case Nil
  show ?case by (auto simp: ValidateUser_Nil)
next
  case (Cons g gs)
  let ?d = "\<lambda>g. case ValidateUser re fac (Struct [g]) of Returned e \<Rightarrow> e | Panicked p \<Rightarrow> []"
  show ?case
  proof (cases "ValidateUser re fac (Struct [g])")
    case (Panicked p)
    then show ?thesis by (simp add: ValidateUser_Cons [of re fac g gs] append_errs_def)
  next
    case g: (Returned e1)
    show ?thesis
    proof (cases "ValidateUser re fac (Struct gs)")
      case (Panicked p)
      with Cons.IH [of "concat (map ?d gs)"]
      have "\<not> (\<forall>h \<in> set gs. \<exists>e. ValidateUser re fac (Struct [h]) = Returned e)" by simp
      with g Panicked show ?thesis
        by (simp add: ValidateUser_Cons [of re fac g gs] append_errs_def)
    next
      case (Returned e2)
      with Cons.IH [of e2]
      have "(\<forall>h \<in> set gs. \<exists>e. ValidateUser re fac (Struct [h]) = Returned e)"
        and "e2 = concat (map ?d gs)" by simp_all
      with g Returned show ?thesis
        by (auto simp: ValidateUser_Cons [of re fac g gs] append_errs_def)
    qed
  qed
qed

section \<open>The claims\<close>

subsection \<open>Type mismatches\<close>

text \<open>
  C1. A value of the wrong dynamic type should give a validation error and never a
  panic. The integer and the string validator check the type assertion and return the
  error, and the default validator passes every value. The email validator asserts
  \<^verbatim>\<open>email.(string)\<close> unchecked: on the int 85, with the pattern of the package
  (which compiles), it panics, and so does the walker on a struct whose int field is
  annotated \<^verbatim>\<open>email\<close>; with any pattern and any library it panics on every value
  that is no string.
\<close>

theorem EmailValidator_unchecked_assertion:
  "Validate go_regexp (EmailValidator pattern) (BInt 85) = Panicked TypeAssertionPanic
   \<and> ValidateUser go_regexp ValidatorFactory
        (Struct [\<lparr>fname = ''Age'', exported = True, ftag = ''email'', fvalue = BInt 85\<rparr>])
       = Panicked TypeAssertionPanic
   \<and> (\<exists>pc. Validate re (EmailValidator p) (BInt n) = Panicked pc)
   \<and> (\<exists>pc. Validate re (EmailValidator p) BOther = Panicked pc)
   \<and> Validate re (NumberValidator mn mx) (BString s) = Returned (False, Some ''not of int type'')
   \<and> Validate re (NumberValidator mn mx) BOther = Returned (False, Some ''not of int type'')
   \<and> Validate re (StringValidator mn mx) (BInt n) = Returned (False, Some ''not of string type'')
   \<and> Validate re (StringValidator mn mx) BOther = Returned (False, Some ''not of string type'')
   \<and> Validate re DefaultValidator v = Returned (True, None)"
proof -
  have "Validate go_regexp (EmailValidator pattern) (BInt 85) = Panicked TypeAssertionPanic"
    by code_simp
  moreover have "ValidateUser go_regexp ValidatorFactory
        (Struct [\<lparr>fname = ''Age'', exported = True, ftag = ''email'', fvalue = BInt 85\<rparr>])
       = Panicked TypeAssertionPanic"
    by code_simp
  moreover have "\<exists>pc. Validate re (EmailValidator p) (BInt n) = Panicked pc"
    "\<exists>pc. Validate re (EmailValidator p) BOther = Panicked pc"
    by (cases "re p"; simp)+
  ultimately show ?thesis by simp
qed

subsection \<open>A pattern that does not compile\<close>

text \<open>
  C2, as the claim has it, fails: the pattern \<^verbatim>\<open>(\<close> does not compile, and the
  constructor still returns a validator that holds it; the fault shows only when
  \<^verbatim>\<open>Validate\<close> is called.
\<close>

theorem bad_pattern_construction_returns:
  "go_regexp ''('' = None
   \<and> newEmailValidator [WithPattern ''(''] = EmailValidator ''(''
   \<and> Validate go_regexp (newEmailValidator [WithPattern ''('']) (BString ''oshankfriends@gmail.com'')
       = Panicked (RegexpCompilePanic ''('')"
proof -
  have "go_regexp ''('' = None" by code_simp
  then show ?thesis
    by (simp add: newEmailValidator_def apply_opts_def zero_Option_def WithPattern_def)
qed

text \<open>
  C2, amended. When the pattern of an email validator does not compile, the constructor
  returns the validator all the same, and every call of \<^verbatim>\<open>Validate\<close> on it, whatever
  the value, panics in \<^verbatim>\<open>regexp.MustCompile\<close>: the fault is fatal, it is not
  swallowed and it is never returned as a validation failure.
\<close>

theorem bad_pattern_panics_in_Validate:
  assumes "re p = None"
  shows "newEmailValidator (opts @ [WithPattern p]) = EmailValidator p
         \<and> Validate re (EmailValidator p) v = Panicked (RegexpCompilePanic p)"
  using assms by (simp add: newEmailValidator_def apply_opts_def WithPattern_def)

theorem bad_pattern_panics_in_Validate_witness:
  "go_regexp ''(a'' = None
   \<and> newEmailValidator [WithMin 1, WithPattern ''(a''] = EmailValidator ''(a''
   \<and> Validate go_regexp (EmailValidator ''(a'') (BString ''a'') = Panicked (RegexpCompilePanic ''(a'')"
proof -
  have h: "go_regexp ''(a'' = None" by code_simp
  from bad_pattern_panics_in_Validate [where re = go_regexp and p = "''(a''"
      and opts = "[WithMin 1]" and v = "BString ''a''"] h
  show ?thesis by simp
qed

subsection \<open>A clause that does not match the format\<close>

text \<open>
  C3, as the claim has it, fails: in \<^verbatim>\<open>int,min=5\<close> the clause \<^verbatim>\<open>min=5\<close> does not
  match the format (one value of two is scanned), and the validator has min 5, not 0.
\<close>

theorem malformed_clause_keeps_min:
  "fst (Sscanf_min_max ''min=5'' (0, 0)) = 1
   \<and> GetValidatorFromTag ValidatorFactory ''int,min=5'' = Inr (NumberValidator 5 0)
   \<and> GetValidatorFromTag ValidatorFactory ''int,min=5'' \<noteq> Inr (NumberValidator 0 0)"
  by (simp add: resolver_defs)

text \<open>
  C3, amended. For every annotation whose rule name is registered and whose remaining
  tokens, joined by commas, do not match the format (the scan stores fewer than two
  values), resolution succeeds and the validator is built with max 0; its min is 0 when
  the scan stores nothing, and when it stores one value its min is the integer scanned
  after \<^verbatim>\<open>min=\<close>.
\<close>

theorem malformed_clause_bounds:
  assumes "CHR '','' \<notin> set name" and "fac name = Some validator"
    and "fst (Sscanf_min_max rest (0, 0)) < 2"
  shows "\<exists>mn. GetValidatorFromTag fac (name @ '','' @ rest) =
                 Inr (validator [WithMin mn, WithMax 0, WithPattern pattern])
              \<and> (fst (Sscanf_min_max rest (0, 0)) = 0 \<longrightarrow> mn = 0)
              \<and> (fst (Sscanf_min_max rest (0, 0)) = 1 \<longrightarrow>
                   (\<exists>s1 s2. match_literal ''min='' rest = Some s1 \<and> scanInt s1 = Some (mn, s2)))"
proof -
  let ?r = "Sscanf_min_max rest (0, 0)"
  have "GetValidatorFromTag fac (name @ '','' @ rest) =
          Inr (validator [WithMin (fst (snd ?r)), WithMax (snd (snd ?r)), WithPattern pattern])"
    using resolve_rest [where name = name and fac = fac and validator = validator and rest = rest]
      assms(1,2) by simp
  moreover have "snd (snd ?r) = 0" using assms(3) by (rule Sscanf_partial(1))
  moreover have "fst ?r = 0 \<longrightarrow> fst (snd ?r) = 0" using Sscanf_partial(2) by blast
  moreover have "fst ?r = 1 \<longrightarrow>
      (\<exists>s1 s2. match_literal ''min='' rest = Some s1 \<and> scanInt s1 = Some (fst (snd ?r), s2))"
    by (auto simp: Sscanf_min_max_def split: option.splits prod.splits)
  ultimately show ?thesis by auto
qed

theorem malformed_clause_bounds_witness:
  "CHR '','' \<notin> set ''string'' \<and> ValidatorFactory ''string'' = Some newStringValidator
   \<and> fst (Sscanf_min_max ''max=13'' (0, 0)) = 0
   \<and> GetValidatorFromTag ValidatorFactory ''string,max=13'' = Inr (StringValidator 0 0)
   \<and> fst (Sscanf_min_max ''min=7,mx=9'' (0, 0)) = 1
   \<and> GetValidatorFromTag ValidatorFactory ''string,min=7,mx=9'' = Inr (StringValidator 7 0)"
proof -
  have h1: "CHR '','' \<notin> set ''string''" by simp
  have h2: "ValidatorFactory ''string'' = Some newStringValidator" by (simp add: ValidatorFactory_def)
  have n0: "fst (Sscanf_min_max ''max=13'' (0, 0)) = 0" by (simp add: Sscanf_min_max_def)
  have n1: "fst (Sscanf_min_max ''min=7,mx=9'' (0, 0)) = 1" by (simp add: resolver_defs)
  have lit: "match_literal ''min='' ''min=7,mx=9'' = Some ''7,mx=9''" by simp
  have num: "scanInt ''7,mx=9'' = Some (7, '',mx=9'')" by (simp add: resolver_defs)
  from malformed_clause_bounds [where name = "''string''" and fac = ValidatorFactory
      and validator = newStringValidator and rest = "''max=13''"] h1 h2 n0
  have a: "GetValidatorFromTag ValidatorFactory ''string,max=13'' =
          Inr (newStringValidator [WithMin 0, WithMax 0, WithPattern pattern])"
    by auto
  from malformed_clause_bounds [where name = "''string''" and fac = ValidatorFactory
      and validator = newStringValidator and rest = "''min=7,mx=9''"] h1 h2 n1 lit num
  have b: "GetValidatorFromTag ValidatorFactory ''string,min=7,mx=9'' =
          Inr (newStringValidator [WithMin 7, WithMax 0, WithPattern pattern])"
    by auto
  from a b h1 h2 n0 n1 show ?thesis
    by (simp add: newStringValidator_def apply_opts_def zero_Option_def WithMin_def WithMax_def
        WithPattern_def)
qed

subsection \<open>The record of the program\<close>

text \<open>
  C4. The record of \<^verbatim>\<open>main\<close>, with the annotations of \<^verbatim>\<open>User\<close>, gives exactly
  one error, the range diagnostic of \<^verbatim>\<open>Age\<close> (85 is above 30); the validators of
  \<^verbatim>\<open>Name\<close>, \<^verbatim>\<open>Email\<close> and \<^verbatim>\<open>ContactNo\<close> pass their values.
\<close>

theorem User_example:
  "ValidateUser go_regexp ValidatorFactory
     (User ''oshank'' ''oshankfriends@gmail.com'' 85 ''7065349354'')
     = Returned [''interger 85, allowed range [ 18,30]'']
   \<and> GetValidatorFromTag ValidatorFactory ''string'' = Inr (StringValidator (- 128) 127)
   \<and> Validate go_regexp (StringValidator (- 128) 127) (BString ''oshank'') = Returned (True, None)
   \<and> GetValidatorFromTag ValidatorFactory ''email'' = Inr (EmailValidator pattern)
   \<and> Validate go_regexp (EmailValidator pattern) (BString ''oshankfriends@gmail.com'')
       = Returned (True, None)
   \<and> GetValidatorFromTag ValidatorFactory ''int,min=18,max=30'' = Inr (NumberValidator 18 30)
   \<and> Validate go_regexp (NumberValidator 18 30) (BInt 85) =
        Returned (False, Some ''interger 85, allowed range [ 18,30]'')
   \<and> GetValidatorFromTag ValidatorFactory ''string,min=10,max=13'' = Inr (StringValidator 10 13)
   \<and> Validate go_regexp (StringValidator 10 13) (BString ''7065349354'') = Returned (True, None)"
proof -
  have "ValidateUser go_regexp ValidatorFactory
     (User ''oshank'' ''oshankfriends@gmail.com'' 85 ''7065349354'')
     = Returned [''interger 85, allowed range [ 18,30]'']"
    by code_simp
  moreover have "Validate go_regexp (EmailValidator pattern) (BString ''oshankfriends@gmail.com'')
       = Returned (True, None)"
    by code_simp
  moreover have "GetValidatorFromTag ValidatorFactory ''string'' = Inr (StringValidator (- 128) 127)"
    "GetValidatorFromTag ValidatorFactory ''email'' = Inr (EmailValidator pattern)"
    "GetValidatorFromTag ValidatorFactory ''int,min=18,max=30'' = Inr (NumberValidator 18 30)"
    "GetValidatorFromTag ValidatorFactory ''string,min=10,max=13'' = Inr (StringValidator 10 13)"
    by (simp_all add: resolver_defs)
  moreover have "Validate go_regexp (NumberValidator 18 30) (BInt 85) =
        Returned (False, Some ''interger 85, allowed range [ 18,30]'')"
    by (simp add: number_range_msg_def itoa_def)
  ultimately show ?thesis by simp
qed

subsection \<open>An annotation that is a rule name alone\<close>

text \<open>
  C5. For every annotation that is one registered rule name, with no comma, resolution
  calls the constructor of the rule with min -128, max 127 and the pattern of the
  package; these three options make the option bag \<open>(-128, 127, pattern)\<close>.
\<close>

theorem single_token_defaults:
  assumes "CHR '','' \<notin> set tag" and "fac tag = Some validator"
  shows "GetValidatorFromTag fac tag =
           Inr (validator [WithMin (- 128), WithMax 127, WithPattern pattern])
         \<and> apply_opts [WithMin (- 128), WithMax 127, WithPattern pattern] =
             \<lparr>omin = - 128, omax = 127, opattern = pattern\<rparr>"
  using resolve_single [where tag = tag and fac = fac and validator = validator] assms
  by (simp add: apply_opts_def zero_Option_def WithMin_def WithMax_def WithPattern_def)

theorem single_token_defaults_witness:
  "CHR '','' \<notin> set ''int'' \<and> ValidatorFactory ''int'' = Some newNumberValidator
   \<and> GetValidatorFromTag ValidatorFactory ''int'' = Inr (NumberValidator (- 128) 127)
   \<and> GetValidatorFromTag ValidatorFactory ''string'' = Inr (StringValidator (- 128) 127)
   \<and> GetValidatorFromTag ValidatorFactory ''email'' = Inr (EmailValidator pattern)
   \<and> GetValidatorFromTag ValidatorFactory ''default'' = Inr DefaultValidator"
proof -
  have c: "CHR '','' \<notin> set ''int''" "CHR '','' \<notin> set ''string''" "CHR '','' \<notin> set ''email''"
    "CHR '','' \<notin> set ''default''" by simp_all
  have f: "ValidatorFactory ''int'' = Some newNumberValidator"
    "ValidatorFactory ''string'' = Some newStringValidator"
    "ValidatorFactory ''email'' = Some newEmailValidator"
    "ValidatorFactory ''default'' = Some newDefaultValidator"
    by (simp_all add: ValidatorFactory_def)
  from single_token_defaults [where tag = "''int''" and fac = ValidatorFactory
      and validator = newNumberValidator]
    single_token_defaults [where tag = "''string''" and fac = ValidatorFactory
      and validator = newStringValidator]
    single_token_defaults [where tag = "''email''" and fac = ValidatorFactory
      and validator = newEmailValidator]
    single_token_defaults [where tag = "''default''" and fac = ValidatorFactory
      and validator = newDefaultValidator] c f
  show ?thesis
    by (simp add: newNumberValidator_def newStringValidator_def newEmailValidator_def
        newDefaultValidator_def)
qed

subsection \<open>An unknown rule name\<close>

text \<open>
  C6, as the claim has it, fails: the first token of the annotation \<^verbatim>\<open>_\<close> is no
  registered rule name, resolution of it fails with the error that names it, and the
  walker, which skips this annotation before it resolves anything, appends no
  diagnostic for the field.
\<close>

theorem skip_sentinel_unknown_no_diagnostic:
  "ValidatorFactory (hd (Split ''_'' CHR '','')) = None
   \<and> GetValidatorFromTag ValidatorFactory ''_'' = Inl ''validator for _ not present''
   \<and> ValidateUser go_regexp ValidatorFactory
        (Struct [\<lparr>fname = ''Name'', exported = True, ftag = ''_'', fvalue = BString ''oshank''\<rparr>])
       = Returned []"
proof -
  have "ValidateUser go_regexp ValidatorFactory
        (Struct [\<lparr>fname = ''Name'', exported = True, ftag = ''_'', fvalue = BString ''oshank''\<rparr>])
       = Returned []"
    by (simp add: field_diagnostics)
  then show ?thesis by (simp add: resolver_defs)
qed

text \<open>
  C6, amended. For every annotation whose first token is no registered rule name,
  resolution fails with the error that names the token; and when the annotation is
  neither empty nor the skip sentinel \<^verbatim>\<open>_\<close>, the loop body appends this one
  diagnostic for the field and does not panic, and the walker goes on: the result is
  what the fields before give, then this diagnostic, then what the fields after give.
\<close>

theorem unknown_rule_one_diagnostic:
  assumes "fac (hd (Split tag CHR '','')) = None"
  shows "GetValidatorFromTag fac tag =
           Inl (''validator for '' @ hd (Split tag CHR '','') @ '' not present'')
    \<and> (tag \<noteq> [] \<and> tag \<noteq> ''_'' \<and> ftag (val st ! i st) = tag \<longrightarrow>
           loop_body re fac st =
             Returned (st\<lparr>errs := errs st
                          @ [''validator for '' @ hd (Split tag CHR '','') @ '' not present'']\<rparr>))
    \<and> (tag \<noteq> [] \<and> tag \<noteq> ''_'' \<and> ftag f = tag \<longrightarrow>
           ValidateUser re fac (Struct (pre @ f # post)) =
             append_errs (ValidateUser re fac (Struct pre))
               (append_errs
                  (Returned [''validator for '' @ hd (Split tag CHR '','') @ '' not present''])
                  (ValidateUser re fac (Struct post))))"
proof -
  have e: "GetValidatorFromTag fac tag =
           Inl (''validator for '' @ hd (Split tag CHR '','') @ '' not present'')"
    using assms by (rule unknown_rule_error)
  have "tag \<noteq> [] \<and> tag \<noteq> ''_'' \<and> ftag (val st ! i st) = tag \<longrightarrow>
           loop_body re fac st =
             Returned (st\<lparr>errs := errs st
                          @ [''validator for '' @ hd (Split tag CHR '','') @ '' not present'']\<rparr>)"
    using e by (auto simp: loop_body_def)
  moreover have "tag \<noteq> [] \<and> tag \<noteq> ''_'' \<and> ftag f = tag \<longrightarrow>
           ValidateUser re fac (Struct (pre @ f # post)) =
             append_errs (ValidateUser re fac (Struct pre))
               (append_errs
                  (Returned [''validator for '' @ hd (Split tag CHR '','') @ '' not present''])
                  (ValidateUser re fac (Struct post)))"
    using e by (auto simp: ValidateUser_mid [of re fac pre f post] field_diagnostics)
  ultimately show ?thesis using e by blast
qed

theorem unknown_rule_one_diagnostic_witness:
  "ValidatorFactory (hd (Split ''bogus'' CHR '','')) = None
   \<and> ''bogus'' \<noteq> [] \<and> ''bogus'' \<noteq> ''_''
   \<and> GetValidatorFromTag ValidatorFactory ''bogus'' = Inl ''validator for bogus not present''
   \<and> loop_body go_regexp ValidatorFactory
        \<lparr>val = [\<lparr>fname = ''Name'', exported = True, ftag = ''bogus'', fvalue = BString ''oshank''\<rparr>],
         i = 0, errs = []\<rparr>
       = Returned
           \<lparr>val = [\<lparr>fname = ''Name'', exported = True, ftag = ''bogus'', fvalue = BString ''oshank''\<rparr>],
            i = 0, errs = [''validator for bogus not present'']\<rparr>
   \<and> ValidateUser go_regexp ValidatorFactory
        (Struct [\<lparr>fname = ''Age'', exported = True, ftag = ''int,min=18,max=30'', fvalue = BInt 85\<rparr>,
                 \<lparr>fname = ''Name'', exported = True, ftag = ''bogus'', fvalue = BString ''oshank''\<rparr>,
                 \<lparr>fname = ''Age2'', exported = True, ftag = ''int,min=18,max=30'', fvalue = BInt 17\<rparr>])
       = Returned [''interger 85, allowed range [ 18,30]'', ''validator for bogus not present'',
                   ''interger 17, allowed range [ 18,30]'']"
proof -
  let ?age = "\<lparr>fname = ''Age'', exported = True, ftag = ''int,min=18,max=30'', fvalue = BInt 85\<rparr>"
  let ?name = "\<lparr>fname = ''Name'', exported = True, ftag = ''bogus'', fvalue = BString ''oshank''\<rparr>"
  let ?age2 = "\<lparr>fname = ''Age2'', exported = True, ftag = ''int,min=18,max=30'', fvalue = BInt 17\<rparr>"
  have h: "ValidatorFactory (hd (Split ''bogus'' CHR '','')) = None"
    by (simp add: ValidatorFactory_def)
  have pre: "ValidateUser go_regexp ValidatorFactory (Struct [?age]) =
               Returned [''interger 85, allowed range [ 18,30]'']"
    by code_simp
  have post: "ValidateUser go_regexp ValidatorFactory (Struct [?age2]) =
               Returned [''interger 17, allowed range [ 18,30]'']"
    by code_simp
  note u = unknown_rule_one_diagnostic [where fac = ValidatorFactory and tag = "''bogus''"
      and re = go_regexp and st = "\<lparr>val = [?name], i = 0, errs = []\<rparr>"
      and f = ?name and pre = "[?age]" and post = "[?age2]"]
  from u h
  have a: "GetValidatorFromTag ValidatorFactory ''bogus'' = Inl ''validator for bogus not present''"
    by simp
  from u h
  have b: "loop_body go_regexp ValidatorFactory \<lparr>val = [?name], i = 0, errs = []\<rparr> =
             Returned \<lparr>val = [?name], i = 0, errs = [''validator for bogus not present'']\<rparr>"
    by simp
  from u h
  have c: "ValidateUser go_regexp ValidatorFactory (Struct [?age, ?name, ?age2]) =
             Returned [''interger 85, allowed range [ 18,30]'', ''validator for bogus not present'',
                       ''interger 17, allowed range [ 18,30]'']"
    by (simp add: pre post append_errs_def)
  from h a b c show ?thesis by simp
qed

subsection \<open>Skipped fields and the order of the diagnostics\<close>

text \<open>
  C7. A field whose annotation is empty or the skip sentinel \<^verbatim>\<open>_\<close> is skipped: the
  loop body leaves the state as it is, whatever the registry, the value and the
  visibility of the field (nothing is resolved, nothing is invoked), the field alone
  gives no diagnostic, and a record gives what it gives without the field. The walker
  returns an error sequence exactly when each field on its own does, and the sequence
  is then the diagnostics of the fields, field after field in declaration order.
\<close>

theorem skipped_fields_and_order:
  "(ftag (val st ! i st) = [] \<or> ftag (val st ! i st) = ''_'' \<longrightarrow>
      loop_body re fac st = Returned st)
   \<and> (ftag f = [] \<or> ftag f = ''_'' \<longrightarrow>
        ValidateUser re fac (Struct [f]) = Returned []
      \<and> ValidateUser re fac (Struct (pre @ f # post)) = ValidateUser re fac (Struct (pre @ post)))
   \<and> ((ValidateUser re fac (Struct fs) = Returned es) =
        ((\<forall>g \<in> set fs. \<exists>e. ValidateUser re fac (Struct [g]) = Returned e)
         \<and> es = concat (map (\<lambda>g. case ValidateUser re fac (Struct [g]) of
                                    Returned e \<Rightarrow> e | Panicked p \<Rightarrow> []) fs)))"
proof -
  have "ftag f = [] \<or> ftag f = ''_'' \<longrightarrow>
        ValidateUser re fac (Struct [f]) = Returned []
      \<and> ValidateUser re fac (Struct (pre @ f # post)) = ValidateUser re fac (Struct (pre @ post))"
    by (auto simp: field_diagnostics ValidateUser_mid [of re fac pre f post]
        ValidateUser_append [of re fac pre post] append_errs_Nil)
  then show ?thesis
    using loop_body_skip [of st re fac] ValidateUser_order [of re fac fs es] by blast
qed

theorem skipped_fields_and_order_witness:
  "ftag \<lparr>fname = ''note'', exported = False, ftag = ''_'', fvalue = BOther\<rparr> = ''_''
   \<and> loop_body go_regexp Map.empty
        \<lparr>val = [\<lparr>fname = ''note'', exported = False, ftag = ''_'', fvalue = BOther\<rparr>],
         i = 0, errs = []\<rparr>
       = Returned \<lparr>val = [\<lparr>fname = ''note'', exported = False, ftag = ''_'', fvalue = BOther\<rparr>],
                   i = 0, errs = []\<rparr>
   \<and> ValidateUser go_regexp ValidatorFactory
        (Struct [\<lparr>fname = ''note'', exported = False, ftag = ''_'', fvalue = BOther\<rparr>]) = Returned []
   \<and> ValidateUser go_regexp ValidatorFactory
        (Struct [\<lparr>fname = ''Age'', exported = True, ftag = ''int,min=18,max=30'', fvalue = BInt 85\<rparr>,
                 \<lparr>fname = ''note'', exported = False, ftag = ''_'', fvalue = BOther\<rparr>,
                 \<lparr>fname = ''Tel'', exported = True, ftag = ''string,min=10,max=13'',
                   fvalue = BString ''706''\<rparr>])
       = Returned [''interger 85, allowed range [ 18,30]'', ''string length 3, allowed range [ 10,13 ]'']
   \<and> (\<exists>e. ValidateUser go_regexp ValidatorFactory
              (Struct [\<lparr>fname = ''Age'', exported = True, ftag = ''int,min=18,max=30'',
                        fvalue = BInt 85\<rparr>]) = Returned e)
   \<and> (\<exists>e. ValidateUser go_regexp ValidatorFactory
              (Struct [\<lparr>fname = ''Tel'', exported = True, ftag = ''string,min=10,max=13'',
                        fvalue = BString ''706''\<rparr>]) = Returned e)"
proof -
  let ?age = "\<lparr>fname = ''Age'', exported = True, ftag = ''int,min=18,max=30'', fvalue = BInt 85\<rparr>"
  let ?note = "\<lparr>fname = ''note'', exported = False, ftag = ''_'', fvalue = BOther\<rparr>"
  let ?tel = "\<lparr>fname = ''Tel'', exported = True, ftag = ''string,min=10,max=13'',
                fvalue = BString ''706''\<rparr>"
  let ?es = "[''interger 85, allowed range [ 18,30]'', ''string length 3, allowed range [ 10,13 ]'']"
  have h: "ftag ?note = ''_''" by simp
  have two: "ValidateUser go_regexp ValidatorFactory (Struct [?age, ?tel]) = Returned ?es"
    by code_simp
  note t1 = skipped_fields_and_order [where st = "\<lparr>val = [?note], i = 0, errs = []\<rparr>"
      and re = go_regexp and fac = Map.empty and f = ?note]
  note t2 = skipped_fields_and_order [where re = go_regexp and fac = ValidatorFactory
      and f = ?note and pre = "[?age]" and post = "[?tel]" and fs = "[?age, ?tel]" and es = ?es]
  from t1 have a: "loop_body go_regexp Map.empty \<lparr>val = [?note], i = 0, errs = []\<rparr> =
                     Returned \<lparr>val = [?note], i = 0, errs = []\<rparr>"
    by simp
  from t2 h have b: "ValidateUser go_regexp ValidatorFactory (Struct [?note]) = Returned []"
    and c: "ValidateUser go_regexp ValidatorFactory (Struct [?age, ?note, ?tel]) =
              ValidateUser go_regexp ValidatorFactory (Struct [?age, ?tel])"
    by simp_all
  from t2 two have "\<forall>g \<in> set [?age, ?tel].
      \<exists>e. ValidateUser go_regexp ValidatorFactory (Struct [g]) = Returned e"
    by blast
  then have d: "\<exists>e. ValidateUser go_regexp ValidatorFactory (Struct [?age]) = Returned e"
    "\<exists>e. ValidateUser go_regexp ValidatorFactory (Struct [?tel]) = Returned e"
    by simp_all
  from h a b c d two show ?thesis by simp
qed

subsection \<open>The integer rule\<close>

text \<open>
  C8, as the claim has it, fails for a validator whose range is empty: the annotation
  \<^verbatim>\<open>int,min=30,max=18\<close> resolves to the validator with min 30 and max 18, and the
  values 30 and 18, equal to min and to max, fail.
\<close>

theorem NumberValidator_empty_range:
  "GetValidatorFromTag ValidatorFactory ''int,min=30,max=18'' = Inr (NumberValidator 30 18)
   \<and> Validate go_regexp (NumberValidator 30 18) (BInt 30) =
        Returned (False, Some ''interger 30, allowed range [ 30,18]'')
   \<and> Validate go_regexp (NumberValidator 30 18) (BInt 18) =
        Returned (False, Some ''interger 18, allowed range [ 30,18]'')"
proof -
  have "GetValidatorFromTag ValidatorFactory ''int,min=30,max=18'' = Inr (NumberValidator 30 18)"
    by (simp add: resolver_defs)
  then show ?thesis by (simp add: number_range_msg_def itoa_def)
qed

text \<open>
  C8, amended. An integer validator with bounds \<open>mn\<close> and \<open>mx\<close> passes an int \<open>v\<close>
  exactly when \<open>mn \<le> v \<le> mx\<close>, and every other int fails with the diagnostic that
  prints the value and both bounds. So \<open>mn - 1\<close> and \<open>mx + 1\<close> fail with that
  diagnostic, and \<open>mn\<close> and \<open>mx\<close> pass when \<open>mn \<le> mx\<close>, and only then.
\<close>

theorem NumberValidator_range:
  "(Validate re (NumberValidator mn mx) (BInt v) = Returned (True, None)) = (mn \<le> v \<and> v \<le> mx)
   \<and> (Validate re (NumberValidator mn mx) (BInt v) =
        Returned (False, Some (''interger '' @ itoa v @ '', allowed range [ '' @ itoa mn @ '','' @ itoa mx @ '']'')))
       = (\<not> (mn \<le> v \<and> v \<le> mx))
   \<and> Validate re (NumberValidator mn mx) (BInt (mn - 1)) =
        Returned (False, Some (''interger '' @ itoa (mn - 1) @ '', allowed range [ '' @ itoa mn @ '','' @ itoa mx @ '']''))
   \<and> Validate re (NumberValidator mn mx) (BInt (mx + 1)) =
        Returned (False, Some (''interger '' @ itoa (mx + 1) @ '', allowed range [ '' @ itoa mn @ '','' @ itoa mx @ '']''))
   \<and> (mn \<le> mx \<longrightarrow>
        Validate re (NumberValidator mn mx) (BInt mn) = Returned (True, None)
      \<and> Validate re (NumberValidator mn mx) (BInt mx) = Returned (True, None))
   \<and> (Validate re (NumberValidator mn mx) (BInt mn) = Returned (True, None)) = (mn \<le> mx)
   \<and> (Validate re (NumberValidator mn mx) (BInt mx) = Returned (True, None)) = (mn \<le> mx)"
  by (simp add: number_range_msg_def not_less)

theorem NumberValidator_range_witness:
  "(18::int) \<le> 30
   \<and> Validate (\<lambda>p. None) (NumberValidator 18 30) (BInt 18) = Returned (True, None)
   \<and> Validate (\<lambda>p. None) (NumberValidator 18 30) (BInt 30) = Returned (True, None)
   \<and> Validate (\<lambda>p. None) (NumberValidator 18 30) (BInt 17) =
        Returned (False, Some ''interger 17, allowed range [ 18,30]'')
   \<and> Validate (\<lambda>p. None) (NumberValidator 18 30) (BInt 31) =
        Returned (False, Some ''interger 31, allowed range [ 18,30]'')"
  using NumberValidator_range [of "\<lambda>p. None" 18 30 18]
    NumberValidator_range [of "\<lambda>p. None" 18 30 30]
  by (simp add: itoa_def)

subsection \<open>The record is only read\<close>

text \<open>
  C9. The record is the local variable \<^verbatim>\<open>val\<close> of the walker. A run of the loop
  body that returns leaves it as it was, and so does a whole pass that returns, from
  any state of the loop and so from the first one. A validator gets the value of a
  field and returns a result; it has no access to the record.
\<close>

theorem walker_leaves_record:
  "(loop_body re fac st = Returned s1 \<longrightarrow> val s1 = val st)
   \<and> (loop re fac st = Returned s2 \<longrightarrow> val s2 = val st)
   \<and> (loop re fac \<lparr>val = fs, i = 0, errs = []\<rparr> = Returned s3 \<longrightarrow> val s3 = fs)"
  using loop_body_frame [of re fac st s1] loop_frame [of re fac st s2]
    loop_frame [of re fac "\<lparr>val = fs, i = 0, errs = []\<rparr>" s3]
  by auto

theorem walker_leaves_record_witness:
  "\<exists>s t. loop_body go_regexp ValidatorFactory
            \<lparr>val = [\<lparr>fname = ''Age'', exported = True, ftag = ''int,min=18,max=30'',
                      fvalue = BInt 85\<rparr>], i = 0, errs = []\<rparr> = Returned s
        \<and> val s = [\<lparr>fname = ''Age'', exported = True, ftag = ''int,min=18,max=30'',
                      fvalue = BInt 85\<rparr>]
        \<and> loop go_regexp ValidatorFactory
            \<lparr>val = [\<lparr>fname = ''Age'', exported = True, ftag = ''int,min=18,max=30'',
                      fvalue = BInt 85\<rparr>], i = 0, errs = []\<rparr> = Returned t
        \<and> val t = [\<lparr>fname = ''Age'', exported = True, ftag = ''int,min=18,max=30'',
                      fvalue = BInt 85\<rparr>]
        \<and> errs t = [''interger 85, allowed range [ 18,30]'']"
proof -
  let ?age = "\<lparr>fname = ''Age'', exported = True, ftag = ''int,min=18,max=30'', fvalue = BInt 85\<rparr>"
  let ?st = "\<lparr>val = [?age], i = 0, errs = []\<rparr>"
  have v: "ValidateUser go_regexp ValidatorFactory (Struct [?age]) =
             Returned [''interger 85, allowed range [ 18,30]'']"
    by code_simp
  then obtain t where t: "loop go_regexp ValidatorFactory ?st = Returned t"
    and et: "errs t = [''interger 85, allowed range [ 18,30]'']"
    by (auto simp: ValidateUser_def split: outcome.splits)
  from v obtain s where s: "loop_body go_regexp ValidatorFactory ?st = Returned s"
    by (cases "loop_body go_regexp ValidatorFactory ?st") (auto simp: ValidateUser_single)
  from walker_leaves_record [where re = go_regexp and fac = ValidatorFactory and st = ?st
      and ?s1.0 = s and ?s2.0 = t and fs = "[?age]" and ?s3.0 = t] s t
  have "val s = [?age]" "val t = [?age]" by simp_all
  with s t et show ?thesis by blast
qed

subsection \<open>When the result of a validator becomes a diagnostic\<close>

text \<open>
  C10. Where the annotation of the field at hand resolves to a validator, a run of the
  loop body that appends a diagnostic is one in which \<^verbatim>\<open>Validate\<close> of that
  validator, on the value of the field, returned false and an error that is not nil,
  and the diagnostic is that error. For a field that the walker does not skip and on
  whose value \<^verbatim>\<open>Validate\<close> returns \<open>(valid, err)\<close>, the loop body appends \<open>err\<close>
  when \<open>valid\<close> is false and \<open>err\<close> is not nil, and appends nothing otherwise:
  nothing for \<open>(false, nil)\<close> and nothing for \<open>(true, err)\<close>, whatever the validator,
  one registered from outside included. The whole pass gives what the fields before
  give, then this, then what the fields after give.
\<close>

theorem diagnostic_only_for_false_and_error:
  "(GetValidatorFromTag fac (ftag (val st ! i st)) = Inr validator
      \<and> loop_body re fac st = Returned s1 \<and> errs s1 \<noteq> errs st \<longrightarrow>
      (\<exists>x e. Interface (val st ! i st) = Returned x
             \<and> Validate re validator x = Returned (False, Some e)
             \<and> s1 = st\<lparr>errs := errs st @ [e]\<rparr>))
   \<and> (ftag f \<noteq> [] \<and> ftag f \<noteq> ''_'' \<and> GetValidatorFromTag fac (ftag f) = Inr validator
        \<and> Interface f = Returned v \<and> Validate re validator v = Returned (valid, err) \<longrightarrow>
        (val st ! i st = f \<longrightarrow>
           loop_body re fac st =
             Returned (if err \<noteq> None \<and> \<not> valid then st\<lparr>errs := errs st @ [the err]\<rparr> else st))
      \<and> ValidateUser re fac (Struct (pre @ f # post)) =
          append_errs (ValidateUser re fac (Struct pre))
            (append_errs (Returned (if err \<noteq> None \<and> \<not> valid then [the err] else []))
               (ValidateUser re fac (Struct post))))"
proof -
  have "GetValidatorFromTag fac (ftag (val st ! i st)) = Inr validator
      \<and> loop_body re fac st = Returned s1 \<and> errs s1 \<noteq> errs st \<longrightarrow>
      (\<exists>x e. Interface (val st ! i st) = Returned x
             \<and> Validate re validator x = Returned (False, Some e)
             \<and> s1 = st\<lparr>errs := errs st @ [e]\<rparr>)"
    by (auto simp: loop_body_def Let_def split: body_splits)
  moreover have "ftag f \<noteq> [] \<and> ftag f \<noteq> ''_'' \<and> GetValidatorFromTag fac (ftag f) = Inr validator
        \<and> Interface f = Returned v \<and> Validate re validator v = Returned (valid, err) \<longrightarrow>
        (val st ! i st = f \<longrightarrow>
           loop_body re fac st =
             Returned (if err \<noteq> None \<and> \<not> valid then st\<lparr>errs := errs st @ [the err]\<rparr> else st))
      \<and> ValidateUser re fac (Struct (pre @ f # post)) =
          append_errs (ValidateUser re fac (Struct pre))
            (append_errs (Returned (if err \<noteq> None \<and> \<not> valid then [the err] else []))
               (ValidateUser re fac (Struct post)))"
    by (auto simp: loop_body_def ValidateUser_mid [of re fac pre f post] field_diagnostics)
  ultimately show ?thesis by blast
qed

theorem diagnostic_only_for_false_and_error_witness:
  "GetValidatorFromTag
     (ValidatorFactory(''odd'' \<mapsto> (\<lambda>opts. CustomValidator (\<lambda>x. Returned (False, None))))) ''odd''
     = Inr (CustomValidator (\<lambda>x. Returned (False, None)))
   \<and> loop_body go_regexp
       (ValidatorFactory(''odd'' \<mapsto> (\<lambda>opts. CustomValidator (\<lambda>x. Returned (False, None)))))
       \<lparr>val = [\<lparr>fname = ''Age'', exported = True, ftag = ''odd'', fvalue = BInt 85\<rparr>],
        i = 0, errs = []\<rparr>
       = Returned \<lparr>val = [\<lparr>fname = ''Age'', exported = True, ftag = ''odd'', fvalue = BInt 85\<rparr>],
                   i = 0, errs = []\<rparr>
   \<and> ValidateUser go_regexp
       (ValidatorFactory(''odd'' \<mapsto> (\<lambda>opts. CustomValidator (\<lambda>x. Returned (False, None)))))
       (Struct [\<lparr>fname = ''Age'', exported = True, ftag = ''odd'', fvalue = BInt 85\<rparr>]) = Returned []
   \<and> ValidateUser go_regexp
       (ValidatorFactory(''odd'' \<mapsto> (\<lambda>opts. CustomValidator (\<lambda>x. Returned (True, Some ''warning'')))))
       (Struct [\<lparr>fname = ''Age'', exported = True, ftag = ''odd'', fvalue = BInt 85\<rparr>]) = Returned []
   \<and> ValidateUser go_regexp
       (ValidatorFactory(''odd'' \<mapsto> (\<lambda>opts. CustomValidator (\<lambda>x. Returned (False, Some ''odd value'')))))
       (Struct [\<lparr>fname = ''Age'', exported = True, ftag = ''odd'', fvalue = BInt 85\<rparr>])
       = Returned [''odd value'']
   \<and> loop_body go_regexp ValidatorFactory
       \<lparr>val = [\<lparr>fname = ''Age'', exported = True, ftag = ''int,min=18,max=30'', fvalue = BInt 85\<rparr>],
        i = 0, errs = []\<rparr>
       = Returned \<lparr>val = [\<lparr>fname = ''Age'', exported = True, ftag = ''int,min=18,max=30'',
                             fvalue = BInt 85\<rparr>],
                   i = 0, errs = [''interger 85, allowed range [ 18,30]'']\<rparr>
   \<and> Validate go_regexp (NumberValidator 18 30) (BInt 85)
       = Returned (False, Some ''interger 85, allowed range [ 18,30]'')"
proof -
  let ?age = "\<lparr>fname = ''Age'', exported = True, ftag = ''odd'', fvalue = BInt 85\<rparr>"
  let ?fac = "\<lambda>r. ValidatorFactory(''odd'' \<mapsto> (\<lambda>opts. CustomValidator (\<lambda>x. Returned r)))"
  let ?old = "\<lparr>fname = ''Age'', exported = True, ftag = ''int,min=18,max=30'', fvalue = BInt 85\<rparr>"
  let ?st = "\<lparr>val = [?old], i = 0, errs = []\<rparr>"
  have tag: "ftag ?age \<noteq> []" "ftag ?age \<noteq> ''_''" by simp_all
  have res: "GetValidatorFromTag (?fac r) (ftag ?age) = Inr (CustomValidator (\<lambda>x. Returned r))" for r
    by (simp add: GetValidatorFromTag_def)
  have inter: "Interface ?age = Returned (BInt 85)" by (simp add: Interface_def)
  have run: "Validate go_regexp (CustomValidator (\<lambda>x. Returned (b, e))) (BInt 85) = Returned (b, e)"
    for b e by simp
  note t = diagnostic_only_for_false_and_error [where f = ?age and re = go_regexp
      and v = "BInt 85" and pre = "[]" and post = "[]"]
  from t [where fac = "?fac (False, None)" and valid = False and err = None
      and validator = "CustomValidator (\<lambda>x. Returned (False, None))"] tag res inter run
  have a: "ValidateUser go_regexp (?fac (False, None)) (Struct [?age]) = Returned []"
    by (simp add: ValidateUser_Nil append_errs_def)
  from t [where fac = "?fac (True, Some ''warning'')" and valid = True and err = "Some ''warning''"
      and validator = "CustomValidator (\<lambda>x. Returned (True, Some ''warning''))"] tag res inter run
  have b: "ValidateUser go_regexp (?fac (True, Some ''warning'')) (Struct [?age]) = Returned []"
    by (simp add: ValidateUser_Nil append_errs_def)
  from t [where fac = "?fac (False, Some ''odd value'')" and valid = False
      and err = "Some ''odd value''"
      and validator = "CustomValidator (\<lambda>x. Returned (False, Some ''odd value''))"]
    tag res inter run
  have c: "ValidateUser go_regexp (?fac (False, Some ''odd value'')) (Struct [?age]) =
             Returned [''odd value'']"
    by (simp add: ValidateUser_Nil append_errs_def)
  from t [where fac = "?fac (False, None)" and valid = False and err = None
      and validator = "CustomValidator (\<lambda>x. Returned (False, None))"
      and st = "\<lparr>val = [?age], i = 0, errs = []\<rparr>"] tag res inter run
  have d: "loop_body go_regexp (?fac (False, None)) \<lparr>val = [?age], i = 0, errs = []\<rparr> =
             Returned \<lparr>val = [?age], i = 0, errs = []\<rparr>"
    by simp
  have r: "GetValidatorFromTag ValidatorFactory (ftag (val ?st ! i ?st)) = Inr (NumberValidator 18 30)"
    by (simp add: resolver_defs)
  have l: "loop_body go_regexp ValidatorFactory ?st =
             Returned \<lparr>val = [?old], i = 0, errs = [''interger 85, allowed range [ 18,30]'']\<rparr>"
    using r by (simp add: loop_body_def Interface_def number_range_msg_def itoa_def)
  from diagnostic_only_for_false_and_error [where fac = ValidatorFactory and st = ?st
      and validator = "NumberValidator 18 30" and re = go_regexp
      and ?s1.0 = "\<lparr>val = [?old], i = 0, errs = [''interger 85, allowed range [ 18,30]'']\<rparr>"] r l
  have e: "Validate go_regexp (NumberValidator 18 30) (BInt 85)
       = Returned (False, Some ''interger 85, allowed range [ 18,30]'')"
    by (auto simp: Interface_def)
  from res [of "(False, None)"] a b c d l e show ?thesis by simp
qed


end
